theory Spec2Isabelle
  imports Main "HOL-Library.Sublist"
begin

section \<open>JavaScript string operations used by the proxy\<close>

text \<open>
  Paths, header names and header values are JavaScript strings; they are modelled as
  \<^typ>\<open>string\<close>. Only the three string operations that \<^verbatim>\<open>server.js\<close> calls
  are embedded, each for the literal arguments the source passes.
\<close>

text \<open>\<^verbatim>\<open>s.includes(sub)\<close>: some position of \<open>s\<close> starts an occurrence of \<open>sub\<close>.\<close>

fun str_includes :: "string \<Rightarrow> string \<Rightarrow> bool" where
  "str_includes [] sub = (sub = [])"
| "str_includes (c # cs) sub = (prefix sub (c # cs) \<or> str_includes cs sub)"

text \<open>\<^verbatim>\<open>s.startsWith(p)\<close> and \<^verbatim>\<open>s.endsWith(p)\<close>.\<close>

definition startsWith :: "string \<Rightarrow> string \<Rightarrow> bool" where
  "startsWith s p = prefix p s"

definition endsWith :: "string \<Rightarrow> string \<Rightarrow> bool" where
  "endsWith s p = suffix p s"

text \<open>
  \<^verbatim>\<open>s.replace(/^pat/, rep)\<close> for a pattern that is a literal string anchored at the
  start and a replacement without \<^verbatim>\<open>$\<close> patterns: the pattern can only match at
  position 0, and a string without a match is returned as it is.
\<close>

definition replaceLeading :: "string \<Rightarrow> string \<Rightarrow> string \<Rightarrow> string" where
  "replaceLeading pat rep s = (if prefix pat s then rep @ drop (length pat) s else s)"

section \<open>The proxy's path rewrite (\<^verbatim>\<open>proxyOptions.pathRewrite\<close>)\<close>

text \<open>
  \<^verbatim>\<open>
  pathRewrite: (path, req) => {
    if (path.includes('/platformmanager/')) {
      const rewritten = path.replace(/^\/management\/platformmanager/, '/platformmanager');
      return rewritten;
    }
    return path;
  }
  \<close>
  The \<^verbatim>\<open>req\<close> argument is not read and the console output is not modelled.
\<close>

definition pathRewrite :: "string \<Rightarrow> string" where
  "pathRewrite path =
     (if str_includes path ''/platformmanager/''
      then replaceLeading ''/management/platformmanager'' ''/platformmanager'' path
      else path)"

section \<open>HTTP data model\<close>

text \<open>
  Node keeps the headers of a message under lower-case names. \<^verbatim>\<open>req.headers\<close> and
  \<^verbatim>\<open>proxyRes.headers\<close> are plain objects (a map from the name as written to the
  value); \<^verbatim>\<open>setHeader\<close> and \<^verbatim>\<open>getHeader\<close> of an outgoing message lower-case the
  name they are given.
\<close>

type_synonym headers = "string \<rightharpoonup> string"

definition toLowerChar :: "char \<Rightarrow> char" where
  "toLowerChar c =
     (let n = (of_char c :: nat) in if 65 \<le> n \<and> n \<le> 90 then char_of (n + 32) else c)"

definition toLowerCase :: "string \<Rightarrow> string" where
  "toLowerCase s = map toLowerChar s"

definition setHeader :: "headers \<Rightarrow> string \<Rightarrow> string \<Rightarrow> headers" where
  "setHeader hs name v = hs(toLowerCase name \<mapsto> v)"

definition getHeader :: "headers \<Rightarrow> string \<Rightarrow> string option" where
  "getHeader hs name = hs (toLowerCase name)"

text \<open>
  JavaScript truthiness of a value of type \<^verbatim>\<open>string | undefined\<close>: \<^verbatim>\<open>undefined\<close>
  and the empty string are falsy. \<^verbatim>\<open>a || b\<close> is \<open>a\<close> when \<open>a\<close> is truthy.
\<close>

fun truthy :: "string option \<Rightarrow> bool" where
  "truthy None = False"
| "truthy (Some s) = (s \<noteq> [])"

fun orElse :: "string option \<Rightarrow> string \<Rightarrow> string" where
  "orElse None d = d"
| "orElse (Some s) d = (if s = [] then d else s)"

datatype httpMethod = GET | HEAD | POST | PUT | DELETE | PATCH | OPTIONS

record request =
  reqMethod :: httpMethod
  reqUrl :: string
  reqHeaders :: headers

text \<open>\<^verbatim>\<open>req.path\<close>: the part of \<^verbatim>\<open>req.url\<close> before the query string.\<close>

definition reqPath :: "request \<Rightarrow> string" where
  "reqPath req = takeWhile (\<lambda>c. c \<noteq> CHR ''?'') (reqUrl req)"

text \<open>
  A response as the handlers of \<^verbatim>\<open>server.js\<close> build it: the status, the headers
  these handlers write (those that Express and the cors package add on their own are not
  tracked), and the body. \<^verbatim>\<open>res.json(obj)\<close> sends an object of string fields,
  \<^verbatim>\<open>res.sendFile\<close> and the static middleware send the contents of a file.
\<close>

datatype body = NoBody | Json "(string \<times> string) list" | File string

record response =
  resStatus :: nat
  resHeaders :: headers
  resBody :: body

definition newResponse :: response where
  "newResponse = \<lparr>resStatus = 200, resHeaders = Map.empty, resBody = NoBody\<rparr>"


section \<open>The handlers of \<^verbatim>\<open>server.js\<close>\<close>

text \<open>
  \<^verbatim>\<open>app.get('/health', (req, res) => {
    res.json({ status: 'ok', timestamp: new Date().toISOString() }); })\<close>
  The clock reading is the argument \<open>now\<close>.
\<close>

definition health :: "string \<Rightarrow> response \<Rightarrow> response" where
  "health now res = res\<lparr>resBody := Json [(''status'', ''ok''), (''timestamp'', now)]\<rparr>"


record proxyRes =
  statusCode :: nat
  prsHeaders :: headers
  prsBody :: string



text \<open>
  \<^verbatim>\<open>
  onProxyRes: (proxyRes, req, res) => {
    proxyRes.headers['Access-Control-Allow-Origin'] = req.headers.origin || '*';
    proxyRes.headers['Access-Control-Allow-Credentials'] = 'true';
  }
  \<close>
\<close>

definition onProxyRes :: "proxyRes \<Rightarrow> request \<Rightarrow> proxyRes" where
  "onProxyRes proxyRes req =
     proxyRes\<lparr>prsHeaders := (prsHeaders proxyRes)
       (''Access-Control-Allow-Origin'' \<mapsto> orElse (reqHeaders req ''origin'') ''*'',
        ''Access-Control-Allow-Credentials'' \<mapsto> ''true'')\<rparr>"

text \<open>
  \<^verbatim>\<open>
  onError: (err, req, res) => {
    res.status(500).json({ error: 'Proxy Error', message: err.message, path: req.url });
  }
  \<close>
  The error object is represented by its \<^verbatim>\<open>message\<close>.
\<close>

definition onError :: "string \<Rightarrow> request \<Rightarrow> response \<Rightarrow> response" where
  "onError message req res =
     res\<lparr>resStatus := 500,
         resBody := Json [(''error'', ''Proxy Error''), (''message'', message),
                          (''path'', reqUrl req)]\<rparr>"

text \<open>
  A regular expression \<^verbatim>\<open>/\.(e1|...|en)$/\<close>: the string ends with a dot followed by one
  of the alternatives.
\<close>

definition matchesExtension :: "string \<Rightarrow> string list \<Rightarrow> bool" where
  "matchesExtension s exts = list_ex (\<lambda>e. endsWith s (''.'' @ e)) exts"

definition imageFontExtensions :: "string list" where
  "imageFontExtensions =
     [''jpg'', ''jpeg'', ''png'', ''gif'', ''svg'', ''ico'', ''woff'', ''woff2'', ''ttf'', ''eot'']"

text \<open>
  \<^verbatim>\<open>
  setHeaders: (res, filePath) => {
    if (filePath.endsWith('.html')) {
      res.setHeader('Cache-Control', 'no-cache, no-store, must-revalidate');
      res.setHeader('Pragma', 'no-cache');
      res.setHeader('Expires', '0');
    } else if (filePath.match(/\.(js|css)$/)) {
      res.setHeader('Cache-Control', 'public, max-age=31536000, immutable');
    } else if (filePath.match(/\.(jpg|jpeg|png|gif|svg|ico|woff|woff2|ttf|eot)$/)) {
      res.setHeader('Cache-Control', 'public, max-age=604800');
    }
  }
  \<close>
\<close>

definition noCache :: "response \<Rightarrow> response" where
  "noCache res =
     res\<lparr>resHeaders :=
       setHeader
         (setHeader
           (setHeader (resHeaders res) ''Cache-Control'' ''no-cache, no-store, must-revalidate'')
           ''Pragma'' ''no-cache'')
         ''Expires'' ''0''\<rparr>"

definition setHeaders :: "response \<Rightarrow> string \<Rightarrow> response" where
  "setHeaders res filePath =
     (if endsWith filePath ''.html'' then noCache res
      else if matchesExtension filePath [''js'', ''css'']
      then res\<lparr>resHeaders :=
             setHeader (resHeaders res) ''Cache-Control'' ''public, max-age=31536000, immutable''\<rparr>
      else if matchesExtension filePath imageFontExtensions
      then res\<lparr>resHeaders :=
             setHeader (resHeaders res) ''Cache-Control'' ''public, max-age=604800''\<rparr>
      else res)"

text \<open>
  \<^verbatim>\<open>
  app.get('*', (req, res) => {
    if (req.path.startsWith('/api/')) {
      return res.status(404).json({ error: 'API endpoint not found' });
    }
    res.setHeader('Cache-Control', 'no-cache, no-store, must-revalidate');
    res.setHeader('Pragma', 'no-cache');
    res.setHeader('Expires', '0');
    res.sendFile(path.join(buildPath, 'index.html'));
  })
  \<close>
  The argument \<open>entry\<close> is the contents of \<^verbatim>\<open>build/index.html\<close>, or \<open>None\<close> when the
  file does not exist; \<^verbatim>\<open>sendFile\<close> then fails and hands the error to Express.
\<close>

datatype failure = ENOENT | NoRoute

definition catchAll :: "string option \<Rightarrow> request \<Rightarrow> response \<Rightarrow> failure + response" where
  "catchAll entry req res =
     (if startsWith (reqPath req) ''/api/''
      then Inr (res\<lparr>resStatus := 404, resBody := Json [(''error'', ''API endpoint not found'')]\<rparr>)
      else (case entry of
              None \<Rightarrow> Inl ENOENT
            | Some doc \<Rightarrow> Inr ((noCache res)\<lparr>resBody := File doc\<rparr>)))"

section \<open>The application: the middleware chain of \<^verbatim>\<open>server.js\<close>\<close>

text \<open>
  The application passes a request through its middlewares in the order in which
  \<^verbatim>\<open>server.js\<close> registers them: cors, the route \<^verbatim>\<open>/health\<close>, the proxy mounted at
  \<^verbatim>\<open>/api\<close>, the static files, the route \<^verbatim>\<open>*\<close>. What the libraries decide is
  written out as Express does it with the default settings the source leaves in place:
  a route and a mount path match without regard to case, a route also matches with one
  trailing slash, a mount path matches whole leading segments, and a route registered
  with \<^verbatim>\<open>app.get\<close> also answers HEAD.
\<close>

definition routeMatches :: "string \<Rightarrow> string \<Rightarrow> bool" where
  "routeMatches route p = (let l = toLowerCase p in l = route \<or> l = route @ ''/'')"

definition mountMatches :: "string \<Rightarrow> string \<Rightarrow> bool" where
  "mountMatches mount p = (let l = toLowerCase p in l = mount \<or> prefix (mount @ ''/'') l)"

definition getLike :: "httpMethod \<Rightarrow> bool" where
  "getLike m = (m = GET \<or> m = HEAD)"

text \<open>
  What the static middleware finds for a request path under the build directory: a file
  (its path and contents), a directory named without its trailing slash (answered with a
  redirect), or nothing.
\<close>

datatype staticResult = Found string string | Redirect string | Missing

text \<open>
  The surroundings of the application: the clock, the build directory as the static
  middleware and \<^verbatim>\<open>sendFile\<close> read it, and the middleware that
  \<^verbatim>\<open>createProxyMiddleware(proxyOptions)\<close> returns.
\<close>

record env =
  now :: string
  staticLookup :: "string \<Rightarrow> staticResult"
  entryDocument :: "string option"
  proxyMiddleware :: "request \<Rightarrow> response \<Rightarrow> response"

definition serveStatic :: "env \<Rightarrow> request \<Rightarrow> response \<Rightarrow> response option" where
  "serveStatic e req res =
     (if getLike (reqMethod req)
      then (case staticLookup e (reqPath req) of
              Found filePath contents \<Rightarrow> Some ((setHeaders res filePath)\<lparr>resBody := File contents\<rparr>)
            | Redirect loc \<Rightarrow>
                Some (res\<lparr>resStatus := 301, resHeaders := setHeader (resHeaders res) ''Location'' loc\<rparr>)
            | Missing \<Rightarrow> None)
      else None)"

text \<open>
  \<^verbatim>\<open>app.use(cors(...))\<close>, \<^verbatim>\<open>app.get('/health', ...)\<close>,
  \<^verbatim>\<open>app.use('/api', ..., createProxyMiddleware(proxyOptions))\<close>,
  \<^verbatim>\<open>app.use(express.static(buildPath, ...))\<close>, \<^verbatim>\<open>app.get('*', ...)\<close>, in this
  order. The cors middleware answers a preflight (OPTIONS) itself with status 204 and
  passes every other request on. A request that no middleware answers, and the error of
  a failed \<^verbatim>\<open>sendFile\<close>, are left to Express (\<open>Inl\<close>).
\<close>

definition app :: "env \<Rightarrow> request \<Rightarrow> failure + response" where
  "app e req =
     (if reqMethod req = OPTIONS then Inr (newResponse\<lparr>resStatus := 204\<rparr>)
      else if getLike (reqMethod req) \<and> routeMatches ''/health'' (reqPath req)
      then Inr (health (now e) newResponse)
      else if mountMatches ''/api'' (reqPath req)
      then Inr (proxyMiddleware e req newResponse)
      else (case serveStatic e req newResponse of
              Some r \<Rightarrow> Inr r
            | None \<Rightarrow>
                if getLike (reqMethod req) then catchAll (entryDocument e) req newResponse
                else Inl NoRoute))"

section \<open>The browser client's session (\<^verbatim>\<open>ApiService\<close>)\<close>

text \<open>
  The fields of \<^verbatim>\<open>ApiService\<close> that \<^verbatim>\<open>logout\<close> touches, the browser's
  \<^verbatim>\<open>localStorage\<close>, and the lines written with \<^verbatim>\<open>console.error\<close>.
\<close>

record client =
  accessToken :: "string option"
  refreshToken :: "string option"
  localStorage :: "string \<rightharpoonup> string"
  consoleErrors :: "string list"

record fetchRequest =
  fetchUrl :: string
  fetchMethod :: httpMethod
  fetchHeaders :: "(string \<times> string) list"

text \<open>
  \<^verbatim>\<open>fetch\<close> resolves with a response of any status, or rejects with a network error.
\<close>

datatype fetchResult = Resolved nat | Rejected string

definition removeItem :: "(string \<rightharpoonup> string) \<Rightarrow> string \<Rightarrow> (string \<rightharpoonup> string)" where
  "removeItem store k = store(k := None)"

text \<open>
  \<^verbatim>\<open>
  async logout(): Promise<void> {
    if (this.accessToken) {
      try {
        await fetch(`${BASE_URL}/v1/oauth2/token/${this.accessToken}`, {
          method: 'DELETE',
          headers: { 'Authorization': `Bearer ${this.accessToken}`, 'Accept': 'application/json' },
        });
      } catch (error) { console.error('Logout error:', error); }
    }
    this.accessToken = null;
    this.refreshToken = null;
    localStorage.removeItem('access_token');
    localStorage.removeItem('refresh_token');
    localStorage.removeItem('admin_role');
  }
  \<close>
  Both copies of the service have this body; they differ in \<^verbatim>\<open>BASE_URL\<close>, which is
  the first argument. The result is \<open>Inr\<close> of the state when the promise resolves and
  \<open>Inl\<close> of the reason when it rejects.
\<close>

definition revoke :: "string \<Rightarrow> (fetchRequest \<Rightarrow> fetchResult) \<Rightarrow> client \<Rightarrow> client" where
  "revoke baseUrl fetch c =
     (case accessToken c of
        None \<Rightarrow> c
      | Some tok \<Rightarrow>
          if truthy (Some tok)
          then (case fetch \<lparr>fetchUrl = baseUrl @ ''/v1/oauth2/token/'' @ tok,
                            fetchMethod = DELETE,
                            fetchHeaders = [(''Authorization'', ''Bearer '' @ tok),
                                            (''Accept'', ''application/json'')]\<rparr> of
                  Resolved st \<Rightarrow> c
                | Rejected err \<Rightarrow> c\<lparr>consoleErrors := consoleErrors c @ [''Logout error: '' @ err]\<rparr>)
          else c)"

definition logout :: "string \<Rightarrow> (fetchRequest \<Rightarrow> fetchResult) \<Rightarrow> client \<Rightarrow> string + client" where
  "logout baseUrl fetch c =
     (let c1 = revoke baseUrl fetch c;
          c2 = c1\<lparr>accessToken := None\<rparr>;
          c3 = c2\<lparr>refreshToken := None\<rparr>;
          c4 = c3\<lparr>localStorage := removeItem (localStorage c3) ''access_token''\<rparr>;
          c5 = c4\<lparr>localStorage := removeItem (localStorage c4) ''refresh_token''\<rparr>;
          c6 = c5\<lparr>localStorage := removeItem (localStorage c5) ''admin_role''\<rparr>
      in Inr c6)"

text \<open>\<^verbatim>\<open>isAuthenticated(): boolean { return !!this.accessToken; }\<close>\<close>

definition isAuthenticated :: "client \<Rightarrow> bool" where
  "isAuthenticated c = truthy (accessToken c)"

section \<open>Reading a response, and concrete inputs\<close>

text \<open>The \<^verbatim>\<open>Cache-Control\<close> header of a response.\<close>

definition cacheControl :: "response \<Rightarrow> string option" where
  "cacheControl res = getHeader (resHeaders res) ''Cache-Control''"

text \<open>
  A build directory that holds one script, an upstream that refuses the connection (the
  proxy answers through \<open>onError\<close>), and the surroundings made of them.
\<close>

definition sampleBuild :: "string \<Rightarrow> staticResult" where
  "sampleBuild p =
     (if p = ''/assets/index.js'' then Found ''/srv/build/assets/index.js'' ''console.log(1)''
      else Missing)"

definition unreachableUpstream :: "request \<Rightarrow> response \<Rightarrow> response" where
  "unreachableUpstream req res = onError ''connect ECONNREFUSED'' req res"

definition sampleEnv :: env where
  "sampleEnv =
     \<lparr>now = ''2024-05-01T12:00:00.000Z'', staticLookup = sampleBuild,
      entryDocument = Some ''<!doctype html>'', proxyMiddleware = unreachableUpstream\<rparr>"

text \<open>A GET request for a URL with the listed headers.\<close>

definition getRequest :: "string \<Rightarrow> (string \<times> string) list \<Rightarrow> request" where
  "getRequest u hs = \<lparr>reqMethod = GET, reqUrl = u, reqHeaders = map_of hs\<rparr>"

definition sampleProxyRes :: proxyRes where
  "sampleProxyRes = \<lparr>statusCode = 200, prsHeaders = Map.empty, prsBody = ''[]''\<rparr>"

text \<open>
  Outcomes of the revocation call (a response with a given status, a network error) and
  a client that is logged in.
\<close>

definition fetchStatus :: "nat \<Rightarrow> fetchRequest \<Rightarrow> fetchResult" where
  "fetchStatus st rq = Resolved st"

definition fetchFails :: "fetchRequest \<Rightarrow> fetchResult" where
  "fetchFails rq = Rejected ''TypeError: Failed to fetch''"

definition loggedIn :: client where
  "loggedIn =
     \<lparr>accessToken = Some ''tok1'', refreshToken = Some ''ref1'',
      localStorage = map_of [(''access_token'', ''tok1''), (''refresh_token'', ''ref1''),
                             (''admin_role'', ''FULL''), (''theme'', ''dark'')],
      consoleErrors = []\<rparr>"

section \<open>Properties of the string operations\<close>

lemma str_includes_sublist: "str_includes s sub \<longleftrightarrow> sublist sub s"
  by (induction s) (simp_all add: sublist_Cons_right)

lemma replaceLeading_match: "replaceLeading pat rep (pat @ r) = rep @ r"
  by (simp add: replaceLeading_def)

lemma replaceLeading_no_match: "\<not> prefix pat s \<Longrightarrow> replaceLeading pat rep s = s"
  by (simp add: replaceLeading_def)

lemma rewritten_not_management:
  "\<not> prefix ''/management/platformmanager'' (''/platformmanager'' @ r)"
  by simp

section \<open>Properties of the path rewrite\<close>

text \<open>
  C1. A path that contains the segment \<^verbatim>\<open>/platformmanager/\<close> has a leading
  \<^verbatim>\<open>/management/platformmanager\<close> replaced by \<^verbatim>\<open>/platformmanager\<close>, the rest of
  the path kept as it is; a path that contains the segment without that leading prefix,
  and every path that does not contain the segment, is returned unchanged.
\<close>

theorem pathRewrite_platformmanager:
  "(sublist ''/platformmanager/'' p \<and> p = ''/management/platformmanager'' @ r
      \<longrightarrow> pathRewrite p = ''/platformmanager'' @ r)
   \<and> (sublist ''/platformmanager/'' p \<and> \<not> prefix ''/management/platformmanager'' p
      \<longrightarrow> pathRewrite p = p)
   \<and> (\<not> sublist ''/platformmanager/'' p \<longrightarrow> pathRewrite p = p)"
  by (auto simp: pathRewrite_def str_includes_sublist replaceLeading_def)

theorem pathRewrite_platformmanager_witness:
  "sublist ''/platformmanager/'' ''/management/platformmanager/v1/config''
   \<and> pathRewrite ''/management/platformmanager/v1/config'' = ''/platformmanager/v1/config''
   \<and> sublist ''/platformmanager/'' ''/v1/platformmanager/config''
   \<and> pathRewrite ''/v1/platformmanager/config'' = ''/v1/platformmanager/config''
   \<and> \<not> sublist ''/platformmanager/'' ''/management/v1/aps''
   \<and> pathRewrite ''/management/v1/aps'' = ''/management/v1/aps''"
proof -
  have a: "sublist ''/platformmanager/'' ''/management/platformmanager/v1/config''"
    by code_simp
  have b: "sublist ''/platformmanager/'' ''/v1/platformmanager/config''"
    by code_simp
  have c: "\<not> sublist ''/platformmanager/'' ''/management/v1/aps''"
    by code_simp
  have d: "\<not> prefix ''/management/platformmanager'' ''/v1/platformmanager/config''"
    by simp
  from a b c d
    pathRewrite_platformmanager
      [of "''/management/platformmanager/v1/config''" "''/v1/config''"]
    pathRewrite_platformmanager [of "''/v1/platformmanager/config''" "[]"]
    pathRewrite_platformmanager [of "''/management/v1/aps''" "[]"]
  show ?thesis by simp
qed

text \<open>
  C10. The path rewrite is idempotent. A path that the rewrite has changed begins with
  \<^verbatim>\<open>/platformmanager\<close>, so the anchored pattern cannot match it again; a path that
  contains the segment never begins with \<^verbatim>\<open>/management/platformmanager\<close> after the
  rewrite.
\<close>

theorem pathRewrite_idempotent:
  "pathRewrite (pathRewrite p) = pathRewrite p
   \<and> (str_includes p ''/platformmanager/''
        \<longrightarrow> \<not> prefix ''/management/platformmanager'' (pathRewrite p))"
proof -
  have rew: "\<not> prefix ''/management/platformmanager'' (pathRewrite p)"
    if "str_includes p ''/platformmanager/''"
  proof (cases "prefix ''/management/platformmanager'' p")
    case True
    then obtain r where "p = ''/management/platformmanager'' @ r"
      by (auto simp: prefix_def)
    with that have "pathRewrite p = ''/platformmanager'' @ r"
      by (simp add: pathRewrite_def replaceLeading_def)
    then show ?thesis by simp
  next
    case False
    with that show ?thesis
      by (simp add: pathRewrite_def replaceLeading_def)
  qed
  have idem: "pathRewrite (pathRewrite p) = pathRewrite p"
  proof (cases "str_includes p ''/platformmanager/''")
    case True
    from rew [OF True] show ?thesis
      by (simp add: pathRewrite_def [of "pathRewrite p"] replaceLeading_def)
  next
    case False
    then show ?thesis by (simp add: pathRewrite_def)
  qed
  from rew idem show ?thesis by blast
qed

theorem pathRewrite_idempotent_witness:
  "pathRewrite (pathRewrite ''/management/platformmanager/v1/config'')
     = ''/platformmanager/v1/config''
   \<and> str_includes ''/management/platformmanager/v1/config'' ''/platformmanager/''
   \<and> \<not> prefix ''/management/platformmanager''
        (pathRewrite ''/management/platformmanager/v1/config'')"
proof -
  have a: "str_includes ''/management/platformmanager/v1/config'' ''/platformmanager/''"
    by simp
  have b: "pathRewrite ''/management/platformmanager/v1/config''
             = ''/platformmanager/v1/config''"
    by (simp add: pathRewrite_def replaceLeading_def)
  from a b pathRewrite_idempotent [of "''/management/platformmanager/v1/config''"]
  show ?thesis by simp
qed

section \<open>Header names and header stores\<close>


lemma lower_Cache_Control: "toLowerCase ''Cache-Control'' = ''cache-control''"
  by code_simp

lemma lower_Pragma: "toLowerCase ''Pragma'' = ''pragma''"
  by code_simp

lemma lower_Expires: "toLowerCase ''Expires'' = ''expires''"
  by code_simp

lemma lower_health: "toLowerCase ''/health'' = ''/health''"
  by code_simp

lemma lower_api: "toLowerCase ''/api/'' = ''/api/''"
  by code_simp

lemma toLowerCase_prefix: "prefix a b \<Longrightarrow> prefix (toLowerCase a) (toLowerCase b)"
  by (simp add: toLowerCase_def map_mono_prefix)

lemma setHeader_apply:
  "setHeader hs name v k = (if k = toLowerCase name then Some v else hs k)"
  by (simp add: setHeader_def)

lemma getHeader_setHeader_same: "getHeader (setHeader hs name v) name = Some v"
  by (simp add: getHeader_def setHeader_def)


section \<open>The proxy's handlers\<close>





text \<open>
  C7, as the claim states it, fails for a request whose Origin header is present and
  empty: the handler writes the wildcard, not the header's value.
\<close>

theorem onProxyRes_cors_counterexample:
  "reqHeaders (getRequest ''/management/v1/aps'' [(''origin'', [])]) ''origin'' = Some []
   \<and> prsHeaders (onProxyRes sampleProxyRes (getRequest ''/management/v1/aps'' [(''origin'', [])]))
         ''Access-Control-Allow-Origin'' = Some ''*''
   \<and> prsHeaders (onProxyRes sampleProxyRes (getRequest ''/management/v1/aps'' [(''origin'', [])]))
         ''Access-Control-Allow-Origin'' \<noteq> Some []"
  by (simp add: onProxyRes_def getRequest_def)

text \<open>
  C7, amended. \<open>onProxyRes\<close> sets Access-Control-Allow-Origin to the request's Origin value
  when that value is not empty, and to \<^verbatim>\<open>*\<close> when the Origin header is absent or empty;
  it sets Access-Control-Allow-Credentials to \<^verbatim>\<open>true\<close>.
\<close>

theorem onProxyRes_cors:
  "(reqHeaders req ''origin'' = Some v \<and> v \<noteq> [] \<longrightarrow>
      prsHeaders (onProxyRes proxyRes req) ''Access-Control-Allow-Origin'' = Some v)
   \<and> (reqHeaders req ''origin'' = None \<or> reqHeaders req ''origin'' = Some [] \<longrightarrow>
      prsHeaders (onProxyRes proxyRes req) ''Access-Control-Allow-Origin'' = Some ''*'')
   \<and> prsHeaders (onProxyRes proxyRes req) ''Access-Control-Allow-Credentials'' = Some ''true''"
  by (auto simp: onProxyRes_def)

theorem onProxyRes_cors_witness:
  "prsHeaders (onProxyRes sampleProxyRes
       (getRequest ''/management/v1/aps'' [(''origin'', ''https://console.example'')]))
     ''Access-Control-Allow-Origin'' = Some ''https://console.example''
   \<and> prsHeaders (onProxyRes sampleProxyRes (getRequest ''/management/v1/aps'' []))
     ''Access-Control-Allow-Origin'' = Some ''*''
   \<and> prsHeaders (onProxyRes sampleProxyRes (getRequest ''/management/v1/aps'' []))
     ''Access-Control-Allow-Credentials'' = Some ''true''"
proof -
  have a: "reqHeaders (getRequest ''/management/v1/aps'' [(''origin'', ''https://console.example'')])
             ''origin'' = Some ''https://console.example''"
    by (simp add: getRequest_def)
  have b: "reqHeaders (getRequest ''/management/v1/aps'' []) ''origin'' = None"
    by (simp add: getRequest_def)
  from a b
    onProxyRes_cors
      [of "getRequest ''/management/v1/aps'' [(''origin'', ''https://console.example'')]"
        "''https://console.example''" sampleProxyRes]
    onProxyRes_cors [of "getRequest ''/management/v1/aps'' []" "[]" sampleProxyRes]
  show ?thesis by simp
qed

section \<open>Cache headers of static files\<close>

lemma suffix_last: "suffix s f \<Longrightarrow> s \<noteq> [] \<Longrightarrow> last f = last s"
  by (auto simp: suffix_def)

lemma html_not_js_css:
  "endsWith f ''.html'' \<Longrightarrow> \<not> matchesExtension f [''js'', ''css'']"
  by (auto simp: endsWith_def matchesExtension_def dest!: suffix_last)

lemma html_not_image:
  "endsWith f ''.html'' \<Longrightarrow> \<not> matchesExtension f imageFontExtensions"
  by (auto simp: endsWith_def matchesExtension_def imageFontExtensions_def dest!: suffix_last)

lemma js_css_not_html:
  "matchesExtension f [''js'', ''css''] \<Longrightarrow> \<not> endsWith f ''.html''"
  using html_not_js_css by blast

lemma image_not_html:
  "matchesExtension f imageFontExtensions \<Longrightarrow> \<not> endsWith f ''.html''"
  using html_not_image by blast

lemma image_not_js_css:
  "matchesExtension f imageFontExtensions \<Longrightarrow> \<not> matchesExtension f [''js'', ''css'']"
  by (auto simp: endsWith_def matchesExtension_def imageFontExtensions_def dest!: suffix_last)

lemma cacheControl_noCache:
  "cacheControl (noCache res) = Some ''no-cache, no-store, must-revalidate''"
  by (simp add: cacheControl_def noCache_def getHeader_def setHeader_apply
      lower_Cache_Control lower_Pragma lower_Expires)

lemma cacheControl_html:
  "endsWith f ''.html'' \<Longrightarrow>
     cacheControl (setHeaders res f) = Some ''no-cache, no-store, must-revalidate''"
  by (simp add: setHeaders_def cacheControl_noCache)

lemma cacheControl_js_css:
  "matchesExtension f [''js'', ''css''] \<Longrightarrow>
     cacheControl (setHeaders res f) = Some ''public, max-age=31536000, immutable''"
  by (simp add: setHeaders_def js_css_not_html cacheControl_def getHeader_setHeader_same)

lemma cacheControl_image:
  "matchesExtension f imageFontExtensions \<Longrightarrow>
     cacheControl (setHeaders res f) = Some ''public, max-age=604800''"
  by (simp add: setHeaders_def image_not_html image_not_js_css cacheControl_def
      getHeader_setHeader_same)

text \<open>
  C6. The Cache-Control header that \<open>setHeaders\<close> writes depends on the file's extension
  only: no-cache directives for a path ending in \<^verbatim>\<open>.html\<close>, one year and immutable for
  \<^verbatim>\<open>.js\<close> and \<^verbatim>\<open>.css\<close>, one week for the image and font extensions. The header of a
  \<^verbatim>\<open>.js\<close> file differs from the header of \<^verbatim>\<open>index.html\<close>.
\<close>

theorem setHeaders_cache_policy:
  "(endsWith f ''.html'' \<longrightarrow>
      cacheControl (setHeaders res f) = Some ''no-cache, no-store, must-revalidate'')
   \<and> (endsWith f ''.js'' \<or> endsWith f ''.css'' \<longrightarrow>
      cacheControl (setHeaders res f) = Some ''public, max-age=31536000, immutable'')
   \<and> (matchesExtension f imageFontExtensions \<longrightarrow>
      cacheControl (setHeaders res f) = Some ''public, max-age=604800'')
   \<and> (endsWith f ''.js'' \<and> endsWith g ''index.html'' \<longrightarrow>
      cacheControl (setHeaders res f) \<noteq> cacheControl (setHeaders res' g))"
proof -
  have js: "matchesExtension f [''js'', ''css'']"
    if "endsWith f ''.js'' \<or> endsWith f ''.css''"
    using that by (auto simp: matchesExtension_def)
  have idx: "endsWith g ''.html''" if "endsWith g ''index.html''"
  proof -
    have "suffix ''.html'' ''index.html''" by (simp add: suffix_def)
    with that show ?thesis unfolding endsWith_def by (meson suffix_order.trans)
  qed
  show ?thesis
    using js idx by (auto simp: cacheControl_html cacheControl_js_css cacheControl_image)
qed

theorem setHeaders_cache_policy_witness:
  "cacheControl (setHeaders newResponse ''/srv/build/index.html'')
     = Some ''no-cache, no-store, must-revalidate''
   \<and> cacheControl (setHeaders newResponse ''/srv/build/assets/index.js'')
     = Some ''public, max-age=31536000, immutable''
   \<and> cacheControl (setHeaders newResponse ''/srv/build/logo.png'')
     = Some ''public, max-age=604800''
   \<and> cacheControl (setHeaders newResponse ''/srv/build/assets/index.js'')
     \<noteq> cacheControl (setHeaders newResponse ''/srv/build/index.html'')"
proof -
  have a: "endsWith ''/srv/build/index.html'' ''.html''" by code_simp
  have b: "endsWith ''/srv/build/assets/index.js'' ''.js''" by code_simp
  have c: "matchesExtension ''/srv/build/logo.png'' imageFontExtensions" by code_simp
  have d: "endsWith ''/srv/build/index.html'' ''index.html''" by code_simp
  from a b c d
    setHeaders_cache_policy [of "''/srv/build/index.html''" newResponse "[]" newResponse]
    setHeaders_cache_policy
      [of "''/srv/build/assets/index.js''" newResponse "''/srv/build/index.html''" newResponse]
    setHeaders_cache_policy [of "''/srv/build/logo.png''" newResponse "[]" newResponse]
  show ?thesis by simp
qed

section \<open>Routing\<close>

lemma api_path_mounted: "startsWith p ''/api/'' \<Longrightarrow> mountMatches ''/api'' p"
proof -
  assume "startsWith p ''/api/''"
  then have "prefix (toLowerCase ''/api/'') (toLowerCase p)"
    by (simp add: startsWith_def toLowerCase_prefix)
  then show ?thesis
    by (simp add: mountMatches_def lower_api)
qed

text \<open>
  In the application, a request under \<^verbatim>\<open>/api/\<close> goes to the proxy middleware (a
  preflight is answered by cors before), so it never reaches the route \<^verbatim>\<open>*\<close>.
\<close>

lemma api_requests_are_proxied:
  "startsWith (reqPath req) ''/api/'' \<Longrightarrow> reqMethod req \<noteq> OPTIONS \<Longrightarrow>
     app e req = Inr (proxyMiddleware e req newResponse)"
proof -
  assume a: "startsWith (reqPath req) ''/api/''" and m: "reqMethod req \<noteq> OPTIONS"
  from a have "prefix (toLowerCase ''/api/'') (toLowerCase (reqPath req))"
    by (simp add: startsWith_def toLowerCase_prefix)
  then have "prefix ''/api/'' (toLowerCase (reqPath req))"
    by (simp add: lower_api)
  then have h: "\<not> routeMatches ''/health'' (reqPath req)"
    by (auto simp: routeMatches_def Let_def)
  from a have "mountMatches ''/api'' (reqPath req)"
    by (rule api_path_mounted)
  with h m show ?thesis
    by (simp add: app_def)
qed

text \<open>
  C8. A GET request for \<^verbatim>\<open>/health\<close> is answered with status 200 and the JSON object
  of \<^verbatim>\<open>status\<close> and \<^verbatim>\<open>timestamp\<close>, the timestamp being the clock's reading. The answer
  depends on the clock alone: with any other upstream and any other build directory it is
  the same.
\<close>

theorem health_always_ok:
  "reqMethod req = GET \<and> reqPath req = ''/health'' \<longrightarrow>
     app e req = Inr \<lparr>resStatus = 200, resHeaders = Map.empty,
                      resBody = Json [(''status'', ''ok''), (''timestamp'', now e)]\<rparr>
     \<and> (\<forall>e'. now e' = now e \<longrightarrow> app e' req = app e req)"
  by (simp add: app_def routeMatches_def lower_health getLike_def health_def newResponse_def)

theorem health_always_ok_witness:
  "app sampleEnv (getRequest ''/health'' [])
     = Inr \<lparr>resStatus = 200, resHeaders = Map.empty,
            resBody = Json [(''status'', ''ok''), (''timestamp'', ''2024-05-01T12:00:00.000Z'')]\<rparr>"
proof -
  have a: "reqMethod (getRequest ''/health'' []) = GET
           \<and> reqPath (getRequest ''/health'' []) = ''/health''"
    by (simp add: getRequest_def reqPath_def)
  from a health_always_ok [of "getRequest ''/health'' []" sampleEnv]
  show ?thesis by (simp add: sampleEnv_def)
qed







section \<open>Logging out\<close>

text \<open>
  C9. Whatever the revocation call does (a response of any status, or a network error),
  \<open>logout\<close> resolves, and in the state it leaves both tokens are null, the three
  stored entries are gone and \<open>isAuthenticated\<close> is false.
\<close>

theorem logout_clears_session:
  "\<exists>c'. logout baseUrl fetch c = Inr c'
     \<and> accessToken c' = None \<and> refreshToken c' = None
     \<and> localStorage c' ''access_token'' = None
     \<and> localStorage c' ''refresh_token'' = None
     \<and> localStorage c' ''admin_role'' = None
     \<and> \<not> isAuthenticated c'"
  by (simp add: logout_def Let_def removeItem_def isAuthenticated_def)

theorem logout_clears_session_witness:
  "(\<exists>c'. logout ''/api/management'' (fetchStatus 200) loggedIn = Inr c' \<and> \<not> isAuthenticated c')
   \<and> (\<exists>c'. logout ''/api/management'' (fetchStatus 500) loggedIn = Inr c' \<and> \<not> isAuthenticated c')
   \<and> (\<exists>c'. logout ''/api/management'' fetchFails loggedIn = Inr c' \<and> \<not> isAuthenticated c')
   \<and> isAuthenticated loggedIn"
proof -
  have "isAuthenticated loggedIn"
    by (simp add: isAuthenticated_def loggedIn_def)
  with logout_clears_session [of "''/api/management''" "fetchStatus 200" loggedIn]
    logout_clears_session [of "''/api/management''" "fetchStatus 500" loggedIn]
    logout_clears_session [of "''/api/management''" fetchFails loggedIn]
  show ?thesis by blast
qed

end
